theory Spec2Isabelle
  imports Main "HOL-Library.Word"
begin

unbundle bit_operations_syntax

section \<open>Strings and bytes\<close>

text \<open>
  A Go \<^verbatim>\<open>string\<close> is a sequence of bytes and \<^verbatim>\<open>len\<close> counts bytes. An Isabelle
  \<^typ>\<open>string\<close> is a list of 8-bit characters, so the two coincide; \<^verbatim>\<open>[]byte(s)\<close> is
  the list of the character codes.
\<close>

type_synonym byte = "8 word"
type_synonym u32 = "32 word"

definition bytes_of :: "string \<Rightarrow> byte list" where
  "bytes_of s = map of_char s"

section \<open>Library functions used by the token generator\<close>

subsection \<open>crypto/sha256: \<^verbatim>\<open>sha256.Sum256\<close> (FIPS 180-4)\<close>

text \<open>
  The digest as the standard defines it: the message is padded to a multiple of 64 bytes
  and cut into blocks of sixteen big-endian 32-bit words; each block is expanded to 64
  words and mixed in 64 rounds into eight registers. The round constants are the first 32
  bits of the fractional parts of the cube roots of the first 64 primes, the initial
  registers those of the square roots of the first 8 primes, both written in decimal.
\<close>

definition K256 :: "u32 list" where
  "K256 = [
     1116352408, 1899447441, 3049323471, 3921009573,
     961987163, 1508970993, 2453635748, 2870763221,
     3624381080, 310598401, 607225278, 1426881987,
     1925078388, 2162078206, 2614888103, 3248222580,
     3835390401, 4022224774, 264347078, 604807628,
     770255983, 1249150122, 1555081692, 1996064986,
     2554220882, 2821834349, 2952996808, 3210313671,
     3336571891, 3584528711, 113926993, 338241895,
     666307205, 773529912, 1294757372, 1396182291,
     1695183700, 1986661051, 2177026350, 2456956037,
     2730485921, 2820302411, 3259730800, 3345764771,
     3516065817, 3600352804, 4094571909, 275423344,
     430227734, 506948616, 659060556, 883997877,
     958139571, 1322822218, 1537002063, 1747873779,
     1955562222, 2024104815, 2227730452, 2361852424,
     2428436474, 2756734187, 3204031479, 3329325298]"

definition Ch :: "u32 \<Rightarrow> u32 \<Rightarrow> u32 \<Rightarrow> u32" where
  "Ch x y z = (x AND y) XOR (NOT x AND z)"

definition Maj :: "u32 \<Rightarrow> u32 \<Rightarrow> u32 \<Rightarrow> u32" where
  "Maj x y z = (x AND y) XOR (x AND z) XOR (y AND z)"

definition bsig0 :: "u32 \<Rightarrow> u32" where
  "bsig0 x = word_rotr 2 x XOR word_rotr 13 x XOR word_rotr 22 x"

definition bsig1 :: "u32 \<Rightarrow> u32" where
  "bsig1 x = word_rotr 6 x XOR word_rotr 11 x XOR word_rotr 25 x"

definition ssig0 :: "u32 \<Rightarrow> u32" where
  "ssig0 x = word_rotr 7 x XOR word_rotr 18 x XOR drop_bit 3 x"

definition ssig1 :: "u32 \<Rightarrow> u32" where
  "ssig1 x = word_rotr 17 x XOR word_rotr 19 x XOR drop_bit 10 x"

definition be32 :: "byte list \<Rightarrow> u32" where
  "be32 bs = foldl (\<lambda>acc b. push_bit 8 acc OR ucast b) 0 bs"

definition put_be32 :: "u32 \<Rightarrow> byte list" where
  "put_be32 w = [ucast (drop_bit 24 w), ucast (drop_bit 16 w), ucast (drop_bit 8 w), ucast w]"

definition put_be64 :: "64 word \<Rightarrow> byte list" where
  "put_be64 w = map (\<lambda>i. ucast (drop_bit (8 * (7 - i)) w)) [0..<8]"

definition sha256_pad :: "byte list \<Rightarrow> byte list" where
  "sha256_pad m =
     m @ [128] @ replicate ((119 - length m mod 64) mod 64) 0
       @ put_be64 (word_of_nat (8 * length m))"

definition sha256_blocks :: "byte list \<Rightarrow> u32 list list" where
  "sha256_blocks p =
     map (\<lambda>i. map (\<lambda>j. be32 (take 4 (drop (64 * i + 4 * j) p))) [0..<16])
         [0..<length p div 64]"

definition sha256_schedule :: "u32 list \<Rightarrow> u32 list" where
  "sha256_schedule blk =
     fold (\<lambda>t w. w @ [ssig1 (w ! (t - 2)) + w ! (t - 7) + ssig0 (w ! (t - 15)) + w ! (t - 16)])
          [16..<64] blk"

type_synonym sha_regs = "u32 \<times> u32 \<times> u32 \<times> u32 \<times> u32 \<times> u32 \<times> u32 \<times> u32"

definition sha256_round :: "u32 \<Rightarrow> u32 \<Rightarrow> sha_regs \<Rightarrow> sha_regs" where
  "sha256_round k w = (\<lambda>(a, b, c, d, e, f, g, h).
     let t1 = h + bsig1 e + Ch e f g + k + w;
         t2 = bsig0 a + Maj a b c
     in (t1 + t2, a, b, c, d + t1, e, f, g))"

definition sha256_block :: "sha_regs \<Rightarrow> u32 list \<Rightarrow> sha_regs" where
  "sha256_block hs blk =
     (case (hs, fold (\<lambda>(k, w). sha256_round k w) (zip K256 (sha256_schedule blk)) hs) of
        ((h0, h1, h2, h3, h4, h5, h6, h7), (a, b, c, d, e, f, g, h)) \<Rightarrow>
          (h0 + a, h1 + b, h2 + c, h3 + d, h4 + e, h5 + f, h6 + g, h7 + h))"

definition sha256_init :: sha_regs where
  "sha256_init = (
     1779033703, 3144134277, 1013904242, 2773480762,
     1359893119, 2600822924, 528734635, 1541459225)"

definition sha256_Sum256 :: "byte list \<Rightarrow> byte list" where
  "sha256_Sum256 m =
     (case fold (\<lambda>blk hs. sha256_block hs blk) (sha256_blocks (sha256_pad m)) sha256_init of
        (a, b, c, d, e, f, g, h) \<Rightarrow> concat (map put_be32 [a, b, c, d, e, f, g, h]))"

subsection \<open>encoding/base64: \<^verbatim>\<open>base64.StdEncoding.EncodeToString\<close>\<close>

definition encodeStd :: string where
  "encodeStd = ''ABCDEFGHIJKLMNOPQRSTUVWXYZabcdefghijklmnopqrstuvwxyz0123456789+/''"

definition StdPadding :: char where
  "StdPadding = CHR ''=''"

definition b64 :: "u32 \<Rightarrow> nat \<Rightarrow> char" where
  "b64 val sh = encodeStd ! unat (drop_bit sh val AND 63)"

fun EncodeToString :: "byte list \<Rightarrow> string" where
  "EncodeToString (x # y # z # rest) =
     (let val = push_bit 16 (ucast x) OR push_bit 8 (ucast y) OR ucast z
      in [b64 val 18, b64 val 12, b64 val 6, b64 val 0] @ EncodeToString rest)"
| "EncodeToString [x, y] =
     (let val = push_bit 16 (ucast x) OR push_bit 8 (ucast y)
      in [b64 val 18, b64 val 12, b64 val 6, StdPadding])"
| "EncodeToString [x] =
     (let val = push_bit 16 (ucast x)
      in [b64 val 18, b64 val 12, StdPadding, StdPadding])"
| "EncodeToString [] = []"

section \<open>The token generator\<close>

definition GenerateClientToken :: "string \<Rightarrow> string" where
  "GenerateClientToken input =
     (let hash = sha256_Sum256 (bytes_of input);
          encoded = EncodeToString hash
      in if length encoded > 64 then take 64 encoded else encoded)"


section \<open>Errors and panics\<close>

text \<open>
  A Go \<^verbatim>\<open>error\<close> is a value. The errors of this program are either produced by a library
  (encoding/json, the AWS SDK, net/http, io) and passed on as they are, or built with
  \<^verbatim>\<open>fmt.Errorf\<close>, some of them wrapping (\<^verbatim>\<open>%w\<close>) the library's error:
  \<^item> \<^verbatim>\<open>"failed to describe task %s"\<close>
  \<^item> \<^verbatim>\<open>"failed to marshal JSON body: %w"\<close>
  \<^item> \<^verbatim>\<open>"failed to create HTTP request: %w"\<close>
  \<^item> \<^verbatim>\<open>"failed to execute HTTP request: %w"\<close>
  \<^item> \<^verbatim>\<open>"unexpected status code: %d"\<close>
  \<^item> \<^verbatim>\<open>"failed to read response body: %w"\<close>
\<close>

datatype error =
    LibraryError string
  | DescribeTaskFailed string
  | MarshalFailed error
  | CreateRequestFailed error
  | ExecuteRequestFailed error
  | UnexpectedStatusCode int
  | ReadBodyFailed error

text \<open>Run-time panics: a nil pointer dereference, and an index out of range
  (the index and the length).\<close>

datatype panic = NilDereference | IndexOutOfRange nat nat

definition index :: "'a list \<Rightarrow> nat \<Rightarrow> panic + 'a" where
  "index xs i = (if i < length xs then Inr (xs ! i) else Inl (IndexOutOfRange i (length xs)))"

section \<open>The types of the program\<close>

record ECSTaskConfig =
  Cluster :: string
  TaskDefinition :: string
  ClientToken :: string
  Subnets :: "string list"
  SecurityGroups :: "string list"

record ECSTaskReadConfig =
  ReadCluster :: string
  TaskARN :: string

record ADOPayload =
  PlanURL :: string
  PlanID :: string
  ProjectID :: string
  HubName :: string
  JobID :: string
  TimelineID :: string
  TaskInstanceID :: string
  AuthToken :: string

record ADOConfig =
  Instance :: string
  APIVersion :: string
  AuthUsername :: string

record ADOCallbackConfig =
  Config :: ADOConfig
  Payload :: ADOPayload
  Result :: string

text \<open>The zero values that \<^verbatim>\<open>new(ECSTaskConfig)\<close> and \<^verbatim>\<open>new(ADOConfig)\<close> point to.\<close>

definition new_ECSTaskConfig :: ECSTaskConfig where
  "new_ECSTaskConfig =
     \<lparr>Cluster = [], TaskDefinition = [], ClientToken = [], Subnets = [], SecurityGroups = []\<rparr>"

definition new_ADOConfig :: ADOConfig where
  "new_ADOConfig = \<lparr>Instance = [], APIVersion = [], AuthUsername = []\<rparr>"

subsection \<open>Types of the AWS SDK and of net/http, as far as the program uses them\<close>

record Task =
  TaskArn :: "string option"
  LastStatus :: "string option"

record RunTaskInput =
  RunCluster :: string
  RunTaskDefinition :: string
  Count :: int
  LaunchType :: string
  PropagateTags :: string
  EnableECSManagedTags :: bool
  EnableExecuteCommand :: bool
  RunClientToken :: string
  AwsvpcSubnets :: "string list"
  AwsvpcSecurityGroups :: "string list"
  AssignPublicIp :: string

record RunTaskOutput =
  Tasks :: "Task list"

record DescribeTasksInput =
  DescribeCluster :: string
  DescribeTasks :: "string list"

record DescribeTasksOutput =
  DescribedTasks :: "Task list"

record Request =
  Method :: string
  URL :: string
  Header :: "string \<rightharpoonup> string"
  RequestBody :: string

text \<open>A response: its status code, and what \<^verbatim>\<open>io.ReadAll\<close> gives on its body (the bytes
  read, and the error that stopped the reading, if any).\<close>

record Response =
  StatusCode :: int
  Body :: "string \<times> error option"

definition aws_ToString :: "string option \<Rightarrow> string" where
  "aws_ToString p = (case p of None \<Rightarrow> [] | Some v \<Rightarrow> v)"

section \<open>The world outside\<close>

text \<open>
  The libraries and services the program calls are parameters of the model: the JSON decoder
  and encoder, the URL check of \<^verbatim>\<open>http.NewRequest\<close>, and the three remote calls, each a
  function of the number of calls of its kind made before and of the request.
  \<^verbatim>\<open>json.Unmarshal\<close> into a \<^verbatim>\<open>*ADOPayload\<close> variable gives an error, a payload, or (for the
  JSON text \<^verbatim>\<open>null\<close>) leaves the pointer nil.
\<close>

record env =
  json_Unmarshal :: "string \<Rightarrow> error + ADOPayload option"
  json_Marshal :: "(string \<rightharpoonup> string) \<Rightarrow> error + string"
  http_NewRequest :: "string \<Rightarrow> string \<Rightarrow> error option"
  client_RunTask :: "nat \<Rightarrow> RunTaskInput \<Rightarrow> error + RunTaskOutput"
  client_DescribeTasks :: "nat \<Rightarrow> DescribeTasksInput \<Rightarrow> error + DescribeTasksOutput"
  client_Do :: "nat \<Rightarrow> Request \<Rightarrow> error + Response"

datatype call =
    CallRunTask RunTaskInput
  | CallDescribeTasks DescribeTasksInput
  | CallSleep nat
  | CallDo Request

text \<open>
  The state of the process while it handles messages: the two package-level configurations
  (the structs \<^verbatim>\<open>taskCfg\<close> and \<^verbatim>\<open>adoCfg\<close> point to), the number of calls of each kind made so
  far, and the calls made so far, oldest first (\<^verbatim>\<open>time.Sleep\<close> in seconds).
\<close>

record state =
  taskCfg :: ECSTaskConfig
  adoCfg :: ADOConfig
  runs :: nat
  describes :: nat
  posts :: nat
  trace :: "call list"

section \<open>Configuration from the environment, and process start\<close>

datatype 'a outcome = Done 'a | Exited int | Panics panic

definition andThen :: "'a outcome \<Rightarrow> ('a \<Rightarrow> 'b outcome) \<Rightarrow> 'b outcome" where
  "andThen m f = (case m of Done x \<Rightarrow> f x | Exited c \<Rightarrow> Exited c | Panics p \<Rightarrow> Panics p)"

text \<open>\<^verbatim>\<open>os.Getenv\<close> is a function from names to values, empty for an unset variable.\<close>

definition ReadRequiredEnvVar :: "(string \<Rightarrow> string) \<Rightarrow> string \<Rightarrow> string outcome" where
  "ReadRequiredEnvVar getenv name =
     (let v = getenv name in if v = [] then Exited 1 else Done v)"

definition ReadEnvVarWithDefault :: "(string \<Rightarrow> string) \<Rightarrow> string \<Rightarrow> string \<Rightarrow> string" where
  "ReadEnvVarWithDefault getenv name defaultVal =
     (let v = getenv name in if v = [] then defaultVal else v)"

text \<open>\<^verbatim>\<open>strings.Split(s, ",")\<close> for a one-character separator.\<close>

fun strings_Split :: "string \<Rightarrow> char \<Rightarrow> string list" where
  "strings_Split [] sep = [[]]"
| "strings_Split (c # cs) sep =
     (if c = sep then [] # strings_Split cs sep
      else (case strings_Split cs sep of
              [] \<Rightarrow> [[c]]
            | w # ws \<Rightarrow> (c # w) # ws))"

text \<open>
  The methods have pointer receivers. The receiver is modelled as an option, \<open>None\<close> for the
  nil pointer; the right-hand side of an assignment is evaluated before the store through
  the receiver, and a store through nil panics.
\<close>

definition store :: "'a option \<Rightarrow> ('a \<Rightarrow> 'a) \<Rightarrow> 'a option outcome" where
  "store p f = (case p of None \<Rightarrow> Panics NilDereference | Some c \<Rightarrow> Done (Some (f c)))"

definition ECSTaskConfig_ReadFromEnv ::
    "(string \<Rightarrow> string) \<Rightarrow> ECSTaskConfig option \<Rightarrow> ECSTaskConfig option outcome" where
  "ECSTaskConfig_ReadFromEnv getenv config =
     andThen (ReadRequiredEnvVar getenv ''ECS_CLUSTER'') (\<lambda>v.
     andThen (store config (\<lambda>c. c\<lparr>Cluster := v\<rparr>)) (\<lambda>config.
     andThen (ReadRequiredEnvVar getenv ''ECS_TASK_DEFINITION'') (\<lambda>v.
     andThen (store config (\<lambda>c. c\<lparr>TaskDefinition := v\<rparr>)) (\<lambda>config.
     andThen (ReadRequiredEnvVar getenv ''SUBNET_IDS'') (\<lambda>subnetIDsStr.
     andThen (store config (\<lambda>c. c\<lparr>Subnets := strings_Split subnetIDsStr CHR '',''\<rparr>)) (\<lambda>config.
     andThen (ReadRequiredEnvVar getenv ''SECURITY_GROUP_IDS'') (\<lambda>securityGroupIDsStr.
     store config (\<lambda>c. c\<lparr>SecurityGroups := strings_Split securityGroupIDsStr CHR '',''\<rparr>))))))))"

definition ADOConfig_ReadFromEnv ::
    "(string \<Rightarrow> string) \<Rightarrow> ADOConfig option \<Rightarrow> ADOConfig option outcome" where
  "ADOConfig_ReadFromEnv getenv config =
     (let adoDomain = ReadEnvVarWithDefault getenv ''ADO_DOMAIN'' ''dev.azure.com'' in
      andThen (ReadRequiredEnvVar getenv ''ADO_ORG'') (\<lambda>adoOrg.
      andThen (store config (\<lambda>c. c\<lparr>Instance := adoDomain @ ''/'' @ adoOrg\<rparr>)) (\<lambda>config.
      andThen (store config (\<lambda>c. c\<lparr>APIVersion :=
                 ReadEnvVarWithDefault getenv ''ADO_API_VERSION'' ''7.1-preview.3''\<rparr>)) (\<lambda>config.
      store config (\<lambda>c. c\<lparr>AuthUsername :=
                 ReadEnvVarWithDefault getenv ''ADO_AUTH_USERNAME'' ''ado-callback''\<rparr>)))))"

text \<open>
  The package-level variables \<^verbatim>\<open>taskCfg\<close> and \<^verbatim>\<open>adoCfg\<close> are pointers, nil until \<^verbatim>\<open>init\<close>
  assigns them. \<^verbatim>\<open>init\<close> runs its statements in the order of the source; the last
  parameter is the result of \<^verbatim>\<open>config.LoadDefaultConfig\<close>.
\<close>

record globals =
  taskCfg_ptr :: "ECSTaskConfig option"
  adoCfg_ptr :: "ADOConfig option"

definition package_vars :: globals where
  "package_vars = \<lparr>taskCfg_ptr = None, adoCfg_ptr = None\<rparr>"

definition init :: "(string \<Rightarrow> string) \<Rightarrow> error option \<Rightarrow> globals \<Rightarrow> globals outcome" where
  "init getenv loadDefaultConfig g =
     (let g = g\<lparr>taskCfg_ptr := Some new_ECSTaskConfig\<rparr> in
      andThen (ECSTaskConfig_ReadFromEnv getenv (taskCfg_ptr g)) (\<lambda>t.
      let g = g\<lparr>taskCfg_ptr := t\<rparr> in
      andThen (ADOConfig_ReadFromEnv getenv (adoCfg_ptr g)) (\<lambda>a.
      let g = g\<lparr>adoCfg_ptr := a\<rparr>;
          g = g\<lparr>adoCfg_ptr := Some new_ADOConfig\<rparr>
      in (case loadDefaultConfig of
            Some err \<Rightarrow> Exited 1
          | None \<Rightarrow> Done g))))"

section \<open>The operations\<close>

definition SetClientToken :: "ECSTaskConfig \<Rightarrow> string \<Rightarrow> ECSTaskConfig" where
  "SetClientToken config input = config\<lparr>ClientToken := GenerateClientToken input\<rparr>"

definition ADOEventsURL :: "ADOPayload \<Rightarrow> string \<Rightarrow> string \<Rightarrow> string" where
  "ADOEventsURL payload instance apiVersion =
     ''https://'' @ instance @ ''/'' @ ProjectID payload
       @ ''/_apis/distributedtask/hubs/'' @ HubName payload
       @ ''/plans/'' @ PlanID payload @ ''/events?api-version='' @ apiVersion"

text \<open>
  \<^verbatim>\<open>GetAuth\<close>, which \<^verbatim>\<open>ADOCallback\<close> calls, stands in the source between comment marks;
  this is its body as written there.
\<close>

definition GetAuth :: "ADOConfig \<Rightarrow> string \<Rightarrow> string" where
  "GetAuth config token =
     (let authStr = AuthUsername config @ '':'' @ token
      in EncodeToString (bytes_of authStr))"

definition RunFargateTask ::
    "env \<Rightarrow> state \<Rightarrow> ECSTaskConfig \<Rightarrow> (error + RunTaskOutput) \<times> state" where
  "RunFargateTask env s config =
     (let input = \<lparr>RunCluster = Cluster config,
                   RunTaskDefinition = TaskDefinition config,
                   Count = 1,
                   LaunchType = ''FARGATE'',
                   PropagateTags = ''TASK_DEFINITION'',
                   EnableECSManagedTags = True,
                   EnableExecuteCommand = True,
                   RunClientToken = ClientToken config,
                   AwsvpcSubnets = Subnets config,
                   AwsvpcSecurityGroups = SecurityGroups config,
                   AssignPublicIp = ''ENABLED''\<rparr>
      in (client_RunTask env (runs s) input,
          s\<lparr>runs := Suc (runs s), trace := trace s @ [CallRunTask input]\<rparr>))"

definition GetTaskLastStatus ::
    "env \<Rightarrow> state \<Rightarrow> ECSTaskReadConfig \<Rightarrow> (string \<times> error option) \<times> state" where
  "GetTaskLastStatus env s config =
     (let input = \<lparr>DescribeCluster = ReadCluster config, DescribeTasks = [TaskARN config]\<rparr>;
          s' = s\<lparr>describes := Suc (describes s), trace := trace s @ [CallDescribeTasks input]\<rparr>
      in (case client_DescribeTasks env (describes s) input of
            Inl err \<Rightarrow> (([], Some err), s')
          | Inr result \<Rightarrow>
              if length (DescribedTasks result) > 0
              then ((aws_ToString (LastStatus (DescribedTasks result ! 0)), None), s')
              else (([], Some (DescribeTaskFailed (TaskARN config))), s')))"

definition readResponse :: "Response \<Rightarrow> string \<times> error option" where
  "readResponse res =
     (if StatusCode res < 200 \<or> StatusCode res > 399
      then ([], Some (UnexpectedStatusCode (StatusCode res)))
      else (case Body res of
              (data, Some err) \<Rightarrow> (data, Some (ReadBodyFailed err))
            | (data, None) \<Rightarrow> (data, None)))"

definition ADOCallback ::
    "env \<Rightarrow> state \<Rightarrow> ADOCallbackConfig \<Rightarrow> (string \<times> error option) \<times> state" where
  "ADOCallback env s config =
     (let token = GetAuth (Config config) (AuthToken (Payload config));
          headers = [''Accept'' \<mapsto> ''application/json'',
                     ''Authorization'' \<mapsto> ''Bearer '' @ token];
          body = [''name'' \<mapsto> ''TaskCompleted'',
                  ''jobId'' \<mapsto> JobID (Payload config),
                  ''taskId'' \<mapsto> TaskInstanceID (Payload config),
                  ''result'' \<mapsto> Result config]
      in (case json_Marshal env body of
            Inl err \<Rightarrow> (([], Some (MarshalFailed err)), s)
          | Inr bodyBytes \<Rightarrow>
              (let url = ADOEventsURL (Payload config) (Instance (Config config))
                           (APIVersion (Config config))
               in (case http_NewRequest env ''POST'' url of
                     Some err \<Rightarrow> (([], Some (CreateRequestFailed err)), s)
                   | None \<Rightarrow>
                       (let req = \<lparr>Method = ''POST'', URL = url, Header = headers,
                                   RequestBody = bodyBytes\<rparr>;
                            s' = s\<lparr>posts := Suc (posts s), trace := trace s @ [CallDo req]\<rparr>
                        in (case client_Do env (posts s) req of
                              Inl err \<Rightarrow> (([], Some (ExecuteRequestFailed err)), s')
                            | Inr res \<Rightarrow>
                                (case readResponse res of
                                   (resBytes, Some err) \<Rightarrow> (([], Some err), s')
                                 | (resBytes, None) \<Rightarrow> ((resBytes, None), s'))))))))"

section \<open>The handler\<close>

definition time_Sleep :: "nat \<Rightarrow> state \<Rightarrow> state" where
  "time_Sleep d s = s\<lparr>trace := trace s @ [CallSleep d]\<rparr>"

text \<open>
  The polling loop of the handler. It has no bound, so it is a partial function: \<open>None\<close> is
  the loop that never ends. It returns the error the handler returns from inside it, or the
  value of \<^verbatim>\<open>runTaskOutcome\<close> at the \<^verbatim>\<open>break\<close>.
\<close>

partial_function (option) poll ::
    "env \<Rightarrow> string \<Rightarrow> string \<Rightarrow> state \<Rightarrow> ((error + string) \<times> state) option" where
  "poll env taskARN runTaskOutcome s =
     (case GetTaskLastStatus env s
             \<lparr>ReadCluster = Cluster (taskCfg s), TaskARN = taskARN\<rparr> of
        ((taskStatus, Some err), s') \<Rightarrow> Some (Inl err, s')
      | ((taskStatus, None), s') \<Rightarrow>
          if taskStatus = ''RUNNING'' then Some (Inr ''succeeded'', s')
          else if taskStatus = ''STOPPED'' then Some (Inr runTaskOutcome, s')
          else poll env taskARN runTaskOutcome (time_Sleep 1 s'))"

text \<open>What the handler gives back to the Lambda runtime: an error or nil, or a panic.\<close>

datatype result = Returned "error option" | Panicked panic

text \<open>One iteration of the loop over the records: go on with the next record, or leave
  the handler.\<close>

datatype flow = Next | Leave result

definition handle_record :: "env \<Rightarrow> state \<Rightarrow> string \<Rightarrow> (flow \<times> state) option" where
  "handle_record env s body =
     (case json_Unmarshal env body of
        Inl err \<Rightarrow> Some (Leave (Returned (Some err)), s)
      | Inr None \<Rightarrow> Some (Leave (Panicked NilDereference), s)
      | Inr (Some payload) \<Rightarrow>
          (let s = s\<lparr>taskCfg := SetClientToken (taskCfg s) (AuthToken payload)\<rparr> in
           case RunFargateTask env s (taskCfg s) of
             (Inl err, s) \<Rightarrow> Some (Leave (Returned (Some err)), s)
           | (Inr result, s) \<Rightarrow>
               (case index (Tasks result) 0 of
                  Inl p \<Rightarrow> Some (Leave (Panicked p), s)
                | Inr task \<Rightarrow>
                    (let taskARN = aws_ToString (TaskArn task) in
                     case poll env taskARN ''failed'' s of
                       None \<Rightarrow> None
                     | Some (Inl err, s) \<Rightarrow> Some (Leave (Returned (Some err)), s)
                     | Some (Inr runTaskOutcome, s) \<Rightarrow>
                         (case ADOCallback env s
                                 \<lparr>Config = adoCfg s, Payload = payload,
                                  Result = runTaskOutcome\<rparr> of
                            ((callbackResponse, Some err), s) \<Rightarrow>
                              Some (Leave (Returned (Some err)), s)
                          | ((callbackResponse, None), s) \<Rightarrow> Some (Next, s))))))"

text \<open>The handler, on the bodies of the records of the event, in their order.\<close>

fun handler :: "env \<Rightarrow> state \<Rightarrow> string list \<Rightarrow> (result \<times> state) option" where
  "handler env s [] = Some (Returned None, s)"
| "handler env s (body # records) =
     (case handle_record env s body of
        None \<Rightarrow> None
      | Some (Leave r, s') \<Rightarrow> Some (r, s')
      | Some (Next, s') \<Rightarrow> handler env s' records)"

section \<open>The polling loop, observed from outside\<close>

text \<open>
  The \<open>k\<close>-th query of a loop started in state \<open>s\<close> returns \<^term>\<open>observe env taskARN s k\<close>
  (counting from 0). A returned pair is terminal when it carries an error or one of the two
  statuses the loop tests for. \<^term>\<open>polled taskARN s k\<close> is the state after \<open>k\<close> queries, each
  followed by a sleep of one second, and one more query.
\<close>

definition observe :: "env \<Rightarrow> string \<Rightarrow> state \<Rightarrow> nat \<Rightarrow> string \<times> error option" where
  "observe env taskARN s k =
     fst (GetTaskLastStatus env (s\<lparr>describes := describes s + k\<rparr>)
            \<lparr>ReadCluster = Cluster (taskCfg s), TaskARN = taskARN\<rparr>)"

definition terminal :: "string \<times> error option \<Rightarrow> bool" where
  "terminal r = (snd r \<noteq> None \<or> fst r = ''RUNNING'' \<or> fst r = ''STOPPED'')"

definition verdict :: "string \<Rightarrow> string \<times> error option \<Rightarrow> error + string" where
  "verdict out r = (case snd r of Some err \<Rightarrow> Inl err
                    | None \<Rightarrow> if fst r = ''RUNNING'' then Inr ''succeeded'' else Inr out)"

definition polled :: "string \<Rightarrow> state \<Rightarrow> nat \<Rightarrow> state" where
  "polled taskARN s k =
     (let q = CallDescribeTasks \<lparr>DescribeCluster = Cluster (taskCfg s), DescribeTasks = [taskARN]\<rparr>
      in s\<lparr>describes := describes s + k + 1,
           trace := trace s @ concat (replicate k [q, CallSleep 1]) @ [q]\<rparr>)"

lemma snd_GetTaskLastStatus:
  "snd (GetTaskLastStatus env s config) =
     s\<lparr>describes := Suc (describes s),
       trace := trace s @ [CallDescribeTasks
         \<lparr>DescribeCluster = ReadCluster config, DescribeTasks = [TaskARN config]\<rparr>]\<rparr>"
  by (simp add: GetTaskLastStatus_def Let_def split: sum.splits)

lemma fst_GetTaskLastStatus:
  "fst (GetTaskLastStatus env s config) =
     (case client_DescribeTasks env (describes s)
             \<lparr>DescribeCluster = ReadCluster config, DescribeTasks = [TaskARN config]\<rparr> of
        Inl err \<Rightarrow> ([], Some err)
      | Inr result \<Rightarrow>
          if DescribedTasks result = [] then ([], Some (DescribeTaskFailed (TaskARN config)))
          else (aws_ToString (LastStatus (hd (DescribedTasks result))), None))"
  by (simp add: GetTaskLastStatus_def Let_def hd_conv_nth split: sum.splits)

lemma observe_0:
  "observe env taskARN s 0 =
     fst (GetTaskLastStatus env s \<lparr>ReadCluster = Cluster (taskCfg s), TaskARN = taskARN\<rparr>)"
  by (simp add: observe_def)

lemma observe_next:
  "observe env taskARN
     (time_Sleep d (snd (GetTaskLastStatus env s
        \<lparr>ReadCluster = Cluster (taskCfg s), TaskARN = taskARN\<rparr>))) k
   = observe env taskARN s (Suc k)"
  unfolding observe_def
  by (simp add: snd_GetTaskLastStatus time_Sleep_def fst_GetTaskLastStatus)

lemma polled_next:
  "polled taskARN
     (time_Sleep 1 (snd (GetTaskLastStatus env s
        \<lparr>ReadCluster = Cluster (taskCfg s), TaskARN = taskARN\<rparr>))) k
   = polled taskARN s (Suc k)"
  by (simp add: polled_def snd_GetTaskLastStatus time_Sleep_def Let_def)

lemma polled_0:
  "polled taskARN s 0 =
     snd (GetTaskLastStatus env s \<lparr>ReadCluster = Cluster (taskCfg s), TaskARN = taskARN\<rparr>)"
  by (simp add: polled_def snd_GetTaskLastStatus Let_def)

lemma poll_unfold:
  "poll env taskARN out s =
     (let q = GetTaskLastStatus env s \<lparr>ReadCluster = Cluster (taskCfg s), TaskARN = taskARN\<rparr>
      in if terminal (fst q)
         then Some (case snd (fst q) of Some err \<Rightarrow> Inl err
                | None \<Rightarrow> if fst (fst q) = ''RUNNING'' then Inr ''succeeded'' else Inr out, snd q)
         else poll env taskARN out (time_Sleep 1 (snd q)))"
  by (subst poll.simps) (auto simp: terminal_def Let_def split: prod.splits option.splits)

lemma poll_first_terminal:
  "terminal (observe env taskARN s k) \<Longrightarrow>
   (\<forall>j<k. \<not> terminal (observe env taskARN s j)) \<Longrightarrow>
   poll env taskARN out s = Some (verdict out (observe env taskARN s k), polled taskARN s k)"
proof (induction k arbitrary: s)
  case 0
  then show ?case
    by (subst poll_unfold) (simp add: observe_0 polled_0 [of _ _ env] verdict_def Let_def)
next
  case (Suc k)
  let ?q = "GetTaskLastStatus env s \<lparr>ReadCluster = Cluster (taskCfg s), TaskARN = taskARN\<rparr>"
  let ?s = "time_Sleep 1 (snd ?q)"
  from Suc.prems(2) have nt: "\<not> terminal (fst ?q)"
    by (auto simp: observe_0 [symmetric])
  have "terminal (observe env taskARN ?s k)"
    using Suc.prems(1) by (simp only: observe_next)
  moreover have "\<forall>j<k. \<not> terminal (observe env taskARN ?s j)"
    using Suc.prems(2) by (simp only: observe_next) auto
  ultimately have "poll env taskARN out ?s
      = Some (verdict out (observe env taskARN ?s k), polled taskARN ?s k)"
    by (rule Suc.IH)
  then have "poll env taskARN out ?s
      = Some (verdict out (observe env taskARN s (Suc k)), polled taskARN s (Suc k))"
    by (simp only: observe_next polled_next)
  with nt show ?case
    by (subst poll_unfold) (simp add: Let_def)
qed

lemma poll_Some_terminal:
  assumes "poll env taskARN out s = Some r"
  shows "\<exists>k. terminal (observe env taskARN s k)"
proof (rule poll.raw_induct
    [where P = "\<lambda>env taskARN out s r. \<exists>k. terminal (observe env taskARN s k)", OF _ assms],
    goal_cases)
  case (1 poll' env taskARN out s r)
  let ?q = "GetTaskLastStatus env s \<lparr>ReadCluster = Cluster (taskCfg s), TaskARN = taskARN\<rparr>"
  show ?case
  proof (cases "terminal (fst ?q)")
    case True
    then have "terminal (observe env taskARN s 0)" by (simp add: observe_0)
    then show ?thesis by blast
  next
    case False
    with 1(2) have "poll' env taskARN out (time_Sleep 1 (snd ?q)) = Some r"
      by (auto simp: terminal_def split: prod.splits option.splits if_splits)
    then obtain k where "terminal (observe env taskARN (time_Sleep 1 (snd ?q)) k)"
      using 1(1) by blast
    then have "terminal (observe env taskARN s (Suc k))" by (simp only: observe_next)
    then show ?thesis by blast
  qed
qed


lemma poll_result:
  assumes "poll env taskARN out s = Some r"
  shows "\<exists>k. terminal (observe env taskARN s k) \<and> (\<forall>j<k. \<not> terminal (observe env taskARN s j))
            \<and> r = (verdict out (observe env taskARN s k), polled taskARN s k)"
proof -
  from poll_Some_terminal [OF assms] obtain k where
    k: "terminal (observe env taskARN s k)" "\<forall>j<k. \<not> terminal (observe env taskARN s j)"
    using exists_least_iff [of "\<lambda>k. terminal (observe env taskARN s k)"] by blast
  from poll_first_terminal [OF k, of out] assms
  have "r = (verdict out (observe env taskARN s k), polled taskARN s k)" by simp
  with k show ?thesis by blast
qed


lemma length_put_be32: "length (put_be32 w) = 4"
  by (simp add: put_be32_def)

lemma length_sha256_Sum256: "length (sha256_Sum256 m) = 32"
  by (simp add: sha256_Sum256_def length_put_be32 split: prod.splits)

lemma div3_step: "(5 + n) div 3 = Suc (Suc (Suc n) div 3)"
  by arith

lemma length_EncodeToString: "length (EncodeToString bs) = 4 * ((length bs + 2) div 3)"
  by (induction bs rule: EncodeToString.induct) (simp_all add: Let_def div3_step)

lemma length_encoded_digest: "length (EncodeToString (sha256_Sum256 m)) = 44"
  by (simp add: length_EncodeToString length_sha256_Sum256)


section \<open>Properties of the token generator\<close>

text \<open>
  C5. For every input string, the empty one included, \<^const>\<open>GenerateClientToken\<close> returns
  (it is a total function with no error result) a string of at most 64 characters, which is
  the SHA-256 digest of the input, encoded in the standard base64 alphabet and cut to at most
  64 characters.
\<close>

theorem GenerateClientToken_at_most_64:
  "length (GenerateClientToken s) \<le> 64
   \<and> GenerateClientToken s = take 64 (EncodeToString (sha256_Sum256 (bytes_of s)))
   \<and> length (GenerateClientToken []) \<le> 64"
  by (simp add: GenerateClientToken_def Let_def length_encoded_digest)

text \<open>
  C10. For every input string the token has exactly 44 characters, the length of the standard
  base64 encoding of a 32-byte digest; so it is never empty, and the test
  \<^verbatim>\<open>len(encoded) > 64\<close> that guards the truncation is never true.
\<close>

theorem GenerateClientToken_length_44:
  "length (GenerateClientToken s) = 44
   \<and> length (sha256_Sum256 (bytes_of s)) = 32
   \<and> GenerateClientToken s \<noteq> []
   \<and> \<not> length (EncodeToString (sha256_Sum256 (bytes_of s))) > 64
   \<and> GenerateClientToken s = EncodeToString (sha256_Sum256 (bytes_of s))"
proof -
  have len: "length (EncodeToString (sha256_Sum256 (bytes_of s))) = 44"
    by (rule length_encoded_digest)
  have eq: "GenerateClientToken s = EncodeToString (sha256_Sum256 (bytes_of s))"
    by (simp add: GenerateClientToken_def Let_def len)
  have ne: "GenerateClientToken s \<noteq> []"
    using len eq by auto
  show ?thesis
    using len eq ne by (simp add: length_sha256_Sum256)
qed

section \<open>A scenario\<close>

text \<open>
  One message whose payload carries the token \<open>abc123\<close>; the launch returns one task; the
  status queries answer \<open>PENDING\<close>, \<open>PENDING\<close>, \<open>RUNNING\<close> (and so on, in threes); the
  callback is answered with status 200.
\<close>

definition payload0 :: ADOPayload where
  "payload0 = \<lparr>PlanURL = ''https://dev.azure.com/myorg/'', PlanID = ''PLAN1'',
               ProjectID = ''P1'', HubName = ''build'', JobID = ''J1'', TimelineID = ''T1'',
               TaskInstanceID = ''TI1'', AuthToken = ''abc123''\<rparr>"

definition task0 :: "string \<Rightarrow> Task" where
  "task0 status = \<lparr>TaskArn = Some ''arn:aws:ecs:task/1'', LastStatus = Some status\<rparr>"

definition env0 :: env where
  "env0 = \<lparr>
     json_Unmarshal = (\<lambda>body. if body = ''message'' then Inr (Some payload0)
                              else if body = ''null'' then Inr None
                              else Inl (LibraryError ''invalid character'')),
     json_Marshal = (\<lambda>m. Inr ''{}''),
     http_NewRequest = (\<lambda>method url. None),
     client_RunTask = (\<lambda>n input. Inr \<lparr>Tasks = [task0 ''PROVISIONING'']\<rparr>),
     client_DescribeTasks = (\<lambda>n input.
        Inr \<lparr>DescribedTasks = [task0 (if n mod 3 = 2 then ''RUNNING'' else ''PENDING'')]\<rparr>),
     client_Do = (\<lambda>n req. Inr \<lparr>StatusCode = 200, Body = (''ok'', None)\<rparr>)\<rparr>"

definition state0 :: state where
  "state0 = \<lparr>
     taskCfg = \<lparr>Cluster = ''cluster'', TaskDefinition = ''agent:1'', ClientToken = [],
                Subnets = [''subnet-1''], SecurityGroups = [''sg-1'']\<rparr>,
     adoCfg = \<lparr>Instance = ''dev.azure.com/myorg'', APIVersion = ''7.1-preview.3'',
               AuthUsername = ''ado-callback''\<rparr>,
     runs = 0, describes = 0, posts = 0, trace = []\<rparr>"

lemma verdict_simps:
  "verdict out (''RUNNING'', None) = Inr ''succeeded''"
  "verdict out (''STOPPED'', None) = Inr out"
  "verdict out (st, Some err) = Inl err"
  by (simp_all add: verdict_def)

section \<open>The polling loop\<close>

text \<open>
  C4. Whatever the backend answers: when the \<open>k\<close>-th query is the first terminal one, the
  loop ends there, with \<open>"succeeded"\<close> for the status \<open>"RUNNING"\<close>, with \<open>"failed"\<close> for
  \<open>"STOPPED"\<close> and with the error when the query failed, after \<open>k\<close> sleeps of one second and
  \<open>k + 1\<close> queries. A query that returns any other status without error is followed by a
  sleep of one second and another query, never by a result. The loop ends exactly when
  some query returns \<open>"RUNNING"\<close>, \<open>"STOPPED"\<close> or an error.
\<close>

theorem poll_stops_at_first_terminal_status:
  "(\<forall>k. (\<forall>j<k. \<not> terminal (observe env taskARN s j)) \<longrightarrow>
        (observe env taskARN s k = (''RUNNING'', None) \<longrightarrow>
           poll env taskARN ''failed'' s = Some (Inr ''succeeded'', polled taskARN s k))
      \<and> (observe env taskARN s k = (''STOPPED'', None) \<longrightarrow>
           poll env taskARN ''failed'' s = Some (Inr ''failed'', polled taskARN s k))
      \<and> (\<forall>st err. observe env taskARN s k = (st, Some err) \<longrightarrow>
           poll env taskARN ''failed'' s = Some (Inl err, polled taskARN s k)))
   \<and> (\<forall>st. observe env taskARN s 0 = (st, None) \<and> st \<noteq> ''RUNNING'' \<and> st \<noteq> ''STOPPED'' \<longrightarrow>
         poll env taskARN ''failed'' s
           = poll env taskARN ''failed''
               (time_Sleep 1 (snd (GetTaskLastStatus env s
                  \<lparr>ReadCluster = Cluster (taskCfg s), TaskARN = taskARN\<rparr>))))
   \<and> ((\<exists>r. poll env taskARN ''failed'' s = Some r) \<longleftrightarrow>
        (\<exists>k. terminal (observe env taskARN s k)))"
proof -
  have first: "poll env taskARN ''failed'' s
                 = Some (verdict ''failed'' (observe env taskARN s k), polled taskARN s k)"
    if "terminal (observe env taskARN s k)" "\<forall>j<k. \<not> terminal (observe env taskARN s j)" for k
    using that by (rule poll_first_terminal)
  have A: "\<forall>k. (\<forall>j<k. \<not> terminal (observe env taskARN s j)) \<longrightarrow>
        (observe env taskARN s k = (''RUNNING'', None) \<longrightarrow>
           poll env taskARN ''failed'' s = Some (Inr ''succeeded'', polled taskARN s k))
      \<and> (observe env taskARN s k = (''STOPPED'', None) \<longrightarrow>
           poll env taskARN ''failed'' s = Some (Inr ''failed'', polled taskARN s k))
      \<and> (\<forall>st err. observe env taskARN s k = (st, Some err) \<longrightarrow>
           poll env taskARN ''failed'' s = Some (Inl err, polled taskARN s k))"
  proof (intro allI impI conjI)
    fix k
    assume nt: "\<forall>j<k. \<not> terminal (observe env taskARN s j)"
    {
      assume o: "observe env taskARN s k = (''RUNNING'', None)"
      then have "terminal (observe env taskARN s k)" by (simp add: terminal_def)
      from first [OF this nt] o
      show "poll env taskARN ''failed'' s = Some (Inr ''succeeded'', polled taskARN s k)"
        by (simp add: verdict_simps)
    }
    {
      assume o: "observe env taskARN s k = (''STOPPED'', None)"
      then have "terminal (observe env taskARN s k)" by (simp add: terminal_def)
      from first [OF this nt] o
      show "poll env taskARN ''failed'' s = Some (Inr ''failed'', polled taskARN s k)"
        by (simp add: verdict_simps)
    }
    {
      fix st err
      assume o: "observe env taskARN s k = (st, Some err)"
      then have "terminal (observe env taskARN s k)" by (simp add: terminal_def)
      from first [OF this nt] o
      show "poll env taskARN ''failed'' s = Some (Inl err, polled taskARN s k)"
        by (simp add: verdict_simps)
    }
  qed
  have B: "\<forall>st. observe env taskARN s 0 = (st, None) \<and> st \<noteq> ''RUNNING'' \<and> st \<noteq> ''STOPPED'' \<longrightarrow>
         poll env taskARN ''failed'' s
           = poll env taskARN ''failed''
               (time_Sleep 1 (snd (GetTaskLastStatus env s
                  \<lparr>ReadCluster = Cluster (taskCfg s), TaskARN = taskARN\<rparr>)))"
  proof (intro allI impI)
    fix st
    assume "observe env taskARN s 0 = (st, None) \<and> st \<noteq> ''RUNNING'' \<and> st \<noteq> ''STOPPED''"
    then have "\<not> terminal (fst (GetTaskLastStatus env s
                  \<lparr>ReadCluster = Cluster (taskCfg s), TaskARN = taskARN\<rparr>))"
      by (simp add: observe_0 terminal_def)
    then show "poll env taskARN ''failed'' s
           = poll env taskARN ''failed''
               (time_Sleep 1 (snd (GetTaskLastStatus env s
                  \<lparr>ReadCluster = Cluster (taskCfg s), TaskARN = taskARN\<rparr>)))"
      by (subst poll_unfold) (simp add: Let_def)
  qed
  have C: "(\<exists>r. poll env taskARN ''failed'' s = Some r) \<longleftrightarrow>
        (\<exists>k. terminal (observe env taskARN s k))"
  proof
    assume "\<exists>r. poll env taskARN ''failed'' s = Some r"
    then show "\<exists>k. terminal (observe env taskARN s k)"
      using poll_Some_terminal by blast
  next
    assume "\<exists>k. terminal (observe env taskARN s k)"
    then obtain k where
      "terminal (observe env taskARN s k)" "\<forall>j<k. \<not> terminal (observe env taskARN s j)"
      using exists_least_iff [of "\<lambda>k. terminal (observe env taskARN s k)"] by blast
    from first [OF this] show "\<exists>r. poll env taskARN ''failed'' s = Some r"
      by blast
  qed
  from A B C show ?thesis by (intro conjI)
qed

lemma observe_env0:
  "observe env0 ''arn:aws:ecs:task/1'' state0 k
     = (if k mod 3 = 2 then ''RUNNING'' else ''PENDING'', None)"
  by (simp add: observe_def fst_GetTaskLastStatus env0_def state0_def task0_def aws_ToString_def)

theorem poll_stops_at_first_terminal_status_witness:
  "observe env0 ''arn:aws:ecs:task/1'' state0 0 = (''PENDING'', None)
   \<and> observe env0 ''arn:aws:ecs:task/1'' state0 1 = (''PENDING'', None)
   \<and> observe env0 ''arn:aws:ecs:task/1'' state0 2 = (''RUNNING'', None)
   \<and> poll env0 ''arn:aws:ecs:task/1'' ''failed'' state0
       = Some (Inr ''succeeded'', polled ''arn:aws:ecs:task/1'' state0 2)
   \<and> trace (polled ''arn:aws:ecs:task/1'' state0 2)
       = [CallDescribeTasks \<lparr>DescribeCluster = ''cluster'', DescribeTasks = [''arn:aws:ecs:task/1'']\<rparr>,
          CallSleep 1,
          CallDescribeTasks \<lparr>DescribeCluster = ''cluster'', DescribeTasks = [''arn:aws:ecs:task/1'']\<rparr>,
          CallSleep 1,
          CallDescribeTasks \<lparr>DescribeCluster = ''cluster'', DescribeTasks = [''arn:aws:ecs:task/1'']\<rparr>]"
proof -
  have nt: "\<forall>j<2. \<not> terminal (observe env0 ''arn:aws:ecs:task/1'' state0 j)"
    by (auto simp: observe_env0 terminal_def)
  have o2: "observe env0 ''arn:aws:ecs:task/1'' state0 2 = (''RUNNING'', None)"
    by (simp add: observe_env0)
  have p: "poll env0 ''arn:aws:ecs:task/1'' ''failed'' state0
       = Some (Inr ''succeeded'', polled ''arn:aws:ecs:task/1'' state0 2)"
    using poll_stops_at_first_terminal_status [of env0 "''arn:aws:ecs:task/1''" state0] nt o2
    by blast
  have t: "trace (polled ''arn:aws:ecs:task/1'' state0 2)
       = [CallDescribeTasks \<lparr>DescribeCluster = ''cluster'', DescribeTasks = [''arn:aws:ecs:task/1'']\<rparr>,
          CallSleep 1,
          CallDescribeTasks \<lparr>DescribeCluster = ''cluster'', DescribeTasks = [''arn:aws:ecs:task/1'']\<rparr>,
          CallSleep 1,
          CallDescribeTasks \<lparr>DescribeCluster = ''cluster'', DescribeTasks = [''arn:aws:ecs:task/1'']\<rparr>]"
    by (simp add: polled_def state0_def Let_def numeral_2_eq_2)
  show ?thesis using p t by (simp add: observe_env0)
qed

section \<open>The status query\<close>

text \<open>
  C6. \<^const>\<open>GetTaskLastStatus\<close> returns an error, and the empty status, exactly when the
  describe call fails or its reply lists no task: the error of the call in the first case,
  its own error naming the task in the second. When the reply lists a task, it returns the
  last status of the first task listed (the empty string for a nil pointer), and no error.
\<close>

theorem GetTaskLastStatus_error_iff:
  "(let reply = client_DescribeTasks env (describes s)
                  \<lparr>DescribeCluster = ReadCluster config, DescribeTasks = [TaskARN config]\<rparr>;
        r = fst (GetTaskLastStatus env s config)
    in (snd r \<noteq> None \<longleftrightarrow>
          (case reply of Inl err \<Rightarrow> True | Inr result \<Rightarrow> DescribedTasks result = []))
       \<and> (snd r \<noteq> None \<longrightarrow> fst r = [])
       \<and> (\<forall>err. reply = Inl err \<longrightarrow> r = ([], Some err))
       \<and> (\<forall>result. reply = Inr result \<and> DescribedTasks result = [] \<longrightarrow>
             r = ([], Some (DescribeTaskFailed (TaskARN config))))
       \<and> (\<forall>t ts. reply = Inr \<lparr>DescribedTasks = t # ts\<rparr> \<longrightarrow>
             r = (aws_ToString (LastStatus t), None)))"
  by (auto simp: Let_def fst_GetTaskLastStatus split: sum.splits)

theorem GetTaskLastStatus_error_iff_witness:
  "fst (GetTaskLastStatus env0 state0 \<lparr>ReadCluster = ''cluster'', TaskARN = ''arn:aws:ecs:task/1''\<rparr>)
     = (''PENDING'', None)
   \<and> fst (GetTaskLastStatus (env0\<lparr>client_DescribeTasks := \<lambda>n input. Inr \<lparr>DescribedTasks = []\<rparr>\<rparr>)
            state0 \<lparr>ReadCluster = ''cluster'', TaskARN = ''arn:aws:ecs:task/1''\<rparr>)
     = ([], Some (DescribeTaskFailed ''arn:aws:ecs:task/1''))
   \<and> fst (GetTaskLastStatus
            (env0\<lparr>client_DescribeTasks := \<lambda>n input. Inl (LibraryError ''ClusterNotFoundException'')\<rparr>)
            state0 \<lparr>ReadCluster = ''cluster'', TaskARN = ''arn:aws:ecs:task/1''\<rparr>)
     = ([], Some (LibraryError ''ClusterNotFoundException''))"
proof -
  have a: "client_DescribeTasks env0 (describes state0)
             \<lparr>DescribeCluster = ReadCluster \<lparr>ReadCluster = ''cluster'', TaskARN = ''arn:aws:ecs:task/1''\<rparr>,
              DescribeTasks = [TaskARN \<lparr>ReadCluster = ''cluster'', TaskARN = ''arn:aws:ecs:task/1''\<rparr>]\<rparr>
           = Inr \<lparr>DescribedTasks = task0 ''PENDING'' # []\<rparr>"
    by (simp add: env0_def state0_def)
  have b: "client_DescribeTasks (env0\<lparr>client_DescribeTasks := \<lambda>n input. Inr \<lparr>DescribedTasks = []\<rparr>\<rparr>)
             (describes state0)
             \<lparr>DescribeCluster = ReadCluster \<lparr>ReadCluster = ''cluster'', TaskARN = ''arn:aws:ecs:task/1''\<rparr>,
              DescribeTasks = [TaskARN \<lparr>ReadCluster = ''cluster'', TaskARN = ''arn:aws:ecs:task/1''\<rparr>]\<rparr>
           = Inr \<lparr>DescribedTasks = []\<rparr>"
    by simp
  have c: "client_DescribeTasks
             (env0\<lparr>client_DescribeTasks := \<lambda>n input. Inl (LibraryError ''ClusterNotFoundException'')\<rparr>)
             (describes state0)
             \<lparr>DescribeCluster = ReadCluster \<lparr>ReadCluster = ''cluster'', TaskARN = ''arn:aws:ecs:task/1''\<rparr>,
              DescribeTasks = [TaskARN \<lparr>ReadCluster = ''cluster'', TaskARN = ''arn:aws:ecs:task/1''\<rparr>]\<rparr>
           = Inl (LibraryError ''ClusterNotFoundException'')"
    by simp
  from a GetTaskLastStatus_error_iff [of env0 state0
      "\<lparr>ReadCluster = ''cluster'', TaskARN = ''arn:aws:ecs:task/1''\<rparr>"]
  have 1: "fst (GetTaskLastStatus env0 state0
            \<lparr>ReadCluster = ''cluster'', TaskARN = ''arn:aws:ecs:task/1''\<rparr>) = (''PENDING'', None)"
    unfolding Let_def by (simp add: task0_def aws_ToString_def)
  from b GetTaskLastStatus_error_iff
      [of "env0\<lparr>client_DescribeTasks := \<lambda>n input. Inr \<lparr>DescribedTasks = []\<rparr>\<rparr>" state0
        "\<lparr>ReadCluster = ''cluster'', TaskARN = ''arn:aws:ecs:task/1''\<rparr>"]
  have 2: "fst (GetTaskLastStatus (env0\<lparr>client_DescribeTasks := \<lambda>n input. Inr \<lparr>DescribedTasks = []\<rparr>\<rparr>)
            state0 \<lparr>ReadCluster = ''cluster'', TaskARN = ''arn:aws:ecs:task/1''\<rparr>)
     = ([], Some (DescribeTaskFailed ''arn:aws:ecs:task/1''))"
    unfolding Let_def by simp
  from c GetTaskLastStatus_error_iff
      [of "env0\<lparr>client_DescribeTasks := \<lambda>n input. Inl (LibraryError ''ClusterNotFoundException'')\<rparr>"
        state0 "\<lparr>ReadCluster = ''cluster'', TaskARN = ''arn:aws:ecs:task/1''\<rparr>"]
  have 3: "fst (GetTaskLastStatus
            (env0\<lparr>client_DescribeTasks := \<lambda>n input. Inl (LibraryError ''ClusterNotFoundException'')\<rparr>)
            state0 \<lparr>ReadCluster = ''cluster'', TaskARN = ''arn:aws:ecs:task/1''\<rparr>)
     = ([], Some (LibraryError ''ClusterNotFoundException''))"
    unfolding Let_def by simp
  from 1 2 3 show ?thesis by (intro conjI)
qed

section \<open>The callback\<close>

text \<open>The parts of the request that \<^const>\<open>ADOCallback\<close> builds, by the names of its local
  variables.\<close>

definition callback_headers :: "ADOCallbackConfig \<Rightarrow> (string \<rightharpoonup> string)" where
  "callback_headers config =
     [''Accept'' \<mapsto> ''application/json'',
      ''Authorization'' \<mapsto> ''Bearer '' @ GetAuth (Config config) (AuthToken (Payload config))]"

definition callback_body :: "ADOCallbackConfig \<Rightarrow> (string \<rightharpoonup> string)" where
  "callback_body config =
     [''name'' \<mapsto> ''TaskCompleted'',
      ''jobId'' \<mapsto> JobID (Payload config),
      ''taskId'' \<mapsto> TaskInstanceID (Payload config),
      ''result'' \<mapsto> Result config]"

definition callback_url :: "ADOCallbackConfig \<Rightarrow> string" where
  "callback_url config =
     ADOEventsURL (Payload config) (Instance (Config config)) (APIVersion (Config config))"

definition callback_request :: "ADOCallbackConfig \<Rightarrow> string \<Rightarrow> Request" where
  "callback_request config bodyBytes =
     \<lparr>Method = ''POST'', URL = callback_url config, Header = callback_headers config,
      RequestBody = bodyBytes\<rparr>"

definition sent :: "state \<Rightarrow> Request \<Rightarrow> state" where
  "sent s req = s\<lparr>posts := Suc (posts s), trace := trace s @ [CallDo req]\<rparr>"

lemma ADOCallback_unfold:
  "ADOCallback env s config =
     (case json_Marshal env (callback_body config) of
        Inl err \<Rightarrow> (([], Some (MarshalFailed err)), s)
      | Inr bodyBytes \<Rightarrow>
          (case http_NewRequest env ''POST'' (callback_url config) of
             Some err \<Rightarrow> (([], Some (CreateRequestFailed err)), s)
           | None \<Rightarrow>
               (case client_Do env (posts s) (callback_request config bodyBytes) of
                  Inl err \<Rightarrow> (([], Some (ExecuteRequestFailed err)),
                              sent s (callback_request config bodyBytes))
                | Inr res \<Rightarrow>
                    (if snd (readResponse res) = None
                     then (readResponse res, sent s (callback_request config bodyBytes))
                     else (([], snd (readResponse res)),
                           sent s (callback_request config bodyBytes))))))"
  by (simp add: ADOCallback_def Let_def callback_body_def callback_url_def callback_request_def
      callback_headers_def sent_def split: sum.splits option.splits prod.splits)

lemma readResponse_cases:
  "readResponse res =
     (if StatusCode res < 200 \<or> StatusCode res > 399
      then ([], Some (UnexpectedStatusCode (StatusCode res)))
      else if snd (Body res) = None then (fst (Body res), None)
      else (fst (Body res), Some (ReadBodyFailed (the (snd (Body res))))))"
  by (auto simp: readResponse_def split: prod.splits option.splits)

text \<open>
  C7, as the code has it. The callback returns the body of the response and no error
  exactly when the body was marshalled, the request created and sent, the status code of
  the response lies in [200, 399], and the body was read to its end without error. A marshal
  error, an error creating the request, a transport error, a status code outside the range
  and an error reading the body each give an error of a form of its own (and no data).
\<close>

theorem ADOCallback_success_iff:
  "(let r = fst (ADOCallback env s config) in
      (\<forall>e. json_Marshal env (callback_body config) = Inl e \<longrightarrow> r = ([], Some (MarshalFailed e)))
    \<and> (\<forall>b e. json_Marshal env (callback_body config) = Inr b
              \<and> http_NewRequest env ''POST'' (callback_url config) = Some e \<longrightarrow>
              r = ([], Some (CreateRequestFailed e)))
    \<and> (\<forall>b. json_Marshal env (callback_body config) = Inr b
            \<and> http_NewRequest env ''POST'' (callback_url config) = None \<longrightarrow>
           (case client_Do env (posts s) (callback_request config b) of
              Inl e \<Rightarrow> r = ([], Some (ExecuteRequestFailed e))
            | Inr res \<Rightarrow>
                (snd r = None \<longleftrightarrow>
                   200 \<le> StatusCode res \<and> StatusCode res \<le> 399 \<and> snd (Body res) = None)
              \<and> (snd r = None \<longrightarrow> fst r = fst (Body res))
              \<and> (StatusCode res < 200 \<or> StatusCode res > 399 \<longrightarrow>
                   r = ([], Some (UnexpectedStatusCode (StatusCode res))))
              \<and> (\<forall>e. 200 \<le> StatusCode res \<and> StatusCode res \<le> 399
                       \<and> snd (Body res) = Some e \<longrightarrow>
                   r = ([], Some (ReadBodyFailed e)))))
    \<and> distinct [MarshalFailed e1, CreateRequestFailed e2, ExecuteRequestFailed e3,
                 UnexpectedStatusCode c, ReadBodyFailed e4])"
  unfolding Let_def
  by (auto simp: ADOCallback_unfold readResponse_cases split: sum.splits)


definition cfg0 :: ADOCallbackConfig where
  "cfg0 = \<lparr>Config = adoCfg state0, Payload = payload0, Result = ''succeeded''\<rparr>"

text \<open>The response whose body breaks off while it is read, and the one with status 500.\<close>

definition env_cut :: env where
  "env_cut = env0\<lparr>client_Do := \<lambda>n req.
     Inr \<lparr>StatusCode = 200, Body = (''partial'', Some (LibraryError ''unexpected EOF''))\<rparr>\<rparr>"

definition env_500 :: env where
  "env_500 = env0\<lparr>client_Do := \<lambda>n req. Inr \<lparr>StatusCode = 500, Body = (''oops'', None)\<rparr>\<rparr>"

theorem ADOCallback_success_iff_witness:
  "snd (fst (ADOCallback env0 state0 cfg0)) = None
   \<and> fst (fst (ADOCallback env0 state0 cfg0)) = ''ok''
   \<and> fst (ADOCallback env_500 state0 cfg0) = ([], Some (UnexpectedStatusCode 500))
   \<and> fst (ADOCallback env_cut state0 cfg0)
       = ([], Some (ReadBodyFailed (LibraryError ''unexpected EOF'')))"
proof -
  have 1: "snd (fst (ADOCallback env0 state0 cfg0)) = None
           \<and> fst (fst (ADOCallback env0 state0 cfg0)) = ''ok''"
    using ADOCallback_success_iff [of env0 state0 cfg0]
    by (simp add: Let_def env0_def)
  have 2: "fst (ADOCallback env_500 state0 cfg0) = ([], Some (UnexpectedStatusCode 500))"
    using ADOCallback_success_iff [of env_500 state0 cfg0]
    by (simp add: Let_def env0_def env_500_def)
  have 3: "fst (ADOCallback env_cut state0 cfg0)
             = ([], Some (ReadBodyFailed (LibraryError ''unexpected EOF'')))"
    using ADOCallback_success_iff [of env_cut state0 cfg0]
    by (simp add: Let_def env0_def env_cut_def)
  from 1 2 3 show ?thesis by (intro conjI) simp_all
qed

text \<open>
  The claim C7 as it is written fails: the response has status 200, within [200, 399], and
  the callback returns an error, because reading the body failed.
\<close>

theorem ADOCallback_status_200_fails:
  "client_Do env_cut (posts state0) (callback_request cfg0 ''{}'')
     = Inr \<lparr>StatusCode = 200, Body = (''partial'', Some (LibraryError ''unexpected EOF''))\<rparr>
   \<and> 200 \<le> (200 :: int) \<and> (200 :: int) \<le> 399
   \<and> ADOCallback env_cut state0 cfg0
       = (([], Some (ReadBodyFailed (LibraryError ''unexpected EOF''))),
          sent state0 (callback_request cfg0 ''{}''))"
  by (simp add: ADOCallback_unfold readResponse_cases env_cut_def env0_def)

section \<open>The headers of the callback\<close>

lemma ADOCallback_sends:
  "trace (snd (ADOCallback env s config)) = trace s
   \<or> (\<exists>b. trace (snd (ADOCallback env s config)) = trace s @ [CallDo (callback_request config b)])"
  by (auto simp: ADOCallback_unfold sent_def split: sum.splits option.splits)

lemma callback_request_headers:
  "Header (callback_request config b) ''Accept'' = Some ''application/json''"
  "Header (callback_request config b) ''Authorization''
     = Some (''Bearer '' @ EncodeToString
               (bytes_of (AuthUsername (Config config) @ '':'' @ AuthToken (Payload config))))"
  by (simp_all add: callback_request_def callback_headers_def GetAuth_def)

lemma ADOEventsURL_example:
  "ADOEventsURL payload0 ''dev.azure.com/myorg'' ''7.1-preview.3''
     = ''https://dev.azure.com/myorg/P1/_apis/distributedtask/hubs/build/plans/PLAN1/events?api-version=7.1-preview.3''"
  by (simp add: ADOEventsURL_def payload0_def)

lemma GetAuth_abc123:
  "GetAuth (adoCfg state0) ''abc123'' = ''YWRvLWNhbGxiYWNrOmFiYzEyMw==''"
  by (simp add: GetAuth_def state0_def bytes_of_def b64_def encodeStd_def StdPadding_def)

text \<open>
  C1, at the scenario. The callback for the payload with the token \<open>abc123\<close> and the user
  name \<open>ado-callback\<close> sends one request. Its \<open>Accept\<close> header is \<open>application/json\<close>; its
  \<open>Authorization\<close> header is \<open>Bearer\<close> followed by what \<^const>\<open>GetAuth\<close> returns, the base64
  encoding of \<open>ado-callback:abc123\<close>, and not by the token itself.
\<close>

theorem ADOCallback_authorization_not_raw_token:
  "AuthToken (Payload cfg0) = ''abc123''
   \<and> trace (snd (ADOCallback env0 state0 cfg0)) = [CallDo (callback_request cfg0 ''{}'')]
   \<and> Header (callback_request cfg0 ''{}'') ''Accept'' = Some ''application/json''
   \<and> Header (callback_request cfg0 ''{}'') ''Authorization''
       = Some ''Bearer YWRvLWNhbGxiYWNrOmFiYzEyMw==''
   \<and> Header (callback_request cfg0 ''{}'') ''Authorization'' \<noteq> Some ''Bearer abc123''"
proof -
  have t: "trace (snd (ADOCallback env0 state0 cfg0)) = [CallDo (callback_request cfg0 ''{}'')]"
    by (simp add: ADOCallback_unfold readResponse_cases env0_def sent_def)
       (simp add: state0_def)
  have a: "Header (callback_request cfg0 ''{}'') ''Authorization''
       = Some ''Bearer YWRvLWNhbGxiYWNrOmFiYzEyMw==''"
    by (simp add: callback_request_def callback_headers_def cfg0_def payload0_def GetAuth_abc123)
  have c: "Header (callback_request cfg0 ''{}'') ''Accept'' = Some ''application/json''"
    by (rule callback_request_headers)
  have p: "AuthToken (Payload cfg0) = ''abc123''"
    by (simp add: cfg0_def payload0_def)
  from t a c p show ?thesis by simp
qed

section \<open>The handler, step by step\<close>

definition launched :: "state \<Rightarrow> ADOPayload \<Rightarrow> state" where
  "launched s payload = s\<lparr>taskCfg := SetClientToken (taskCfg s) (AuthToken payload)\<rparr>"

lemma snd_RunFargateTask_fields:
  "taskCfg (snd (RunFargateTask env s config)) = taskCfg s"
  "adoCfg (snd (RunFargateTask env s config)) = adoCfg s"
  "describes (snd (RunFargateTask env s config)) = describes s"
  "posts (snd (RunFargateTask env s config)) = posts s"
  "runs (snd (RunFargateTask env s config)) = Suc (runs s)"
  by (simp_all add: RunFargateTask_def Let_def)

lemma polled_fields:
  "taskCfg (polled taskARN s k) = taskCfg s"
  "adoCfg (polled taskARN s k) = adoCfg s"
  "runs (polled taskARN s k) = runs s"
  "posts (polled taskARN s k) = posts s"
  by (simp_all add: polled_def Let_def)

lemma sent_fields:
  "taskCfg (sent s req) = taskCfg s"
  "adoCfg (sent s req) = adoCfg s"
  "runs (sent s req) = runs s"
  "describes (sent s req) = describes s"
  by (simp_all add: sent_def)

lemma snd_ADOCallback:
  "snd (ADOCallback env s config) = s
   \<or> (\<exists>b. snd (ADOCallback env s config) = sent s (callback_request config b))"
  by (auto simp: ADOCallback_unfold split: sum.splits option.splits)

lemma snd_ADOCallback_fields:
  "taskCfg (snd (ADOCallback env s config)) = taskCfg s"
  "adoCfg (snd (ADOCallback env s config)) = adoCfg s"
  "runs (snd (ADOCallback env s config)) = runs s"
  "describes (snd (ADOCallback env s config)) = describes s"
  using snd_ADOCallback [of env s config] by (auto simp: sent_fields)

lemma poll_fields:
  assumes "poll env taskARN out s = Some (r, s')"
  shows "taskCfg s' = taskCfg s" "adoCfg s' = adoCfg s" "runs s' = runs s" "posts s' = posts s"
  using poll_result [OF assms] by (auto simp: polled_fields)

text \<open>The handler's loop body, with its steps named.\<close>

lemma handle_record_unfold:
  "handle_record env s body =
     (case json_Unmarshal env body of
        Inl err \<Rightarrow> Some (Leave (Returned (Some err)), s)
      | Inr None \<Rightarrow> Some (Leave (Panicked NilDereference), s)
      | Inr (Some payload) \<Rightarrow>
          (let run = RunFargateTask env (launched s payload) (taskCfg (launched s payload)) in
           case fst run of
             Inl err \<Rightarrow> Some (Leave (Returned (Some err)), snd run)
           | Inr result \<Rightarrow>
               (case Tasks result of
                  [] \<Rightarrow> Some (Leave (Panicked (IndexOutOfRange 0 0)), snd run)
                | task # _ \<Rightarrow>
                    (case poll env (aws_ToString (TaskArn task)) ''failed'' (snd run) of
                       None \<Rightarrow> None
                     | Some (Inl err, s3) \<Rightarrow> Some (Leave (Returned (Some err)), s3)
                     | Some (Inr runTaskOutcome, s3) \<Rightarrow>
                         (let cb = ADOCallback env s3
                                     \<lparr>Config = adoCfg s3, Payload = payload,
                                      Result = runTaskOutcome\<rparr>
                          in case snd (fst cb) of
                               Some err \<Rightarrow> Some (Leave (Returned (Some err)), snd cb)
                             | None \<Rightarrow> Some (Next, snd cb))))))"
  by (simp add: handle_record_def launched_def index_def Let_def
      split: sum.splits option.splits prod.splits list.splits)

lemma handle_record_frame:
  assumes "handle_record env s body = Some (f, s')"
  shows "adoCfg s' = adoCfg s
       \<and> (\<forall>payload. json_Unmarshal env body = Inr (Some payload) \<longrightarrow>
             taskCfg s' = SetClientToken (taskCfg s) (AuthToken payload))
       \<and> ((\<forall>payload. json_Unmarshal env body \<noteq> Inr (Some payload)) \<longrightarrow> s' = s)"
proof (cases "json_Unmarshal env body")
  case (Inl err)
  with assms show ?thesis by (simp add: handle_record_unfold)
next
  case (Inr p)
  show ?thesis
  proof (cases p)
    case None
    with Inr assms show ?thesis by (simp add: handle_record_unfold)
  next
    case (Some payload)
    let ?run = "RunFargateTask env (launched s payload) (taskCfg (launched s payload))"
    have run: "taskCfg (snd ?run) = SetClientToken (taskCfg s) (AuthToken payload)"
              "adoCfg (snd ?run) = adoCfg s"
      by (simp_all add: snd_RunFargateTask_fields launched_def)
    have "adoCfg s' = adoCfg s \<and> taskCfg s' = SetClientToken (taskCfg s) (AuthToken payload)"
      using assms Inr Some run
      by (auto simp: handle_record_unfold Let_def snd_ADOCallback_fields
          split: sum.splits list.splits option.splits prod.splits
          dest: poll_fields)
    with Inr Some show ?thesis by simp
  qed
qed

lemma handle_record_Leave:
  "handle_record env s body = Some (Leave r, s') \<Longrightarrow> r \<noteq> Returned None"
  by (auto simp: handle_record_unfold Let_def
      split: sum.splits list.splits option.splits prod.splits)

lemma handler_Returned_None:
  "handler env s (body # records) = Some (Returned None, s')
   \<longleftrightarrow> (\<exists>s1. handle_record env s body = Some (Next, s1)
            \<and> handler env s1 records = Some (Returned None, s'))"
  by (auto split: option.splits flow.splits dest: handle_record_Leave)

lemma handler_append:
  "handler env s (pre @ rest) =
     (case handler env s pre of
        None \<Rightarrow> None
      | Some (r, s1) \<Rightarrow> if r = Returned None then handler env s1 rest else Some (r, s1))"
proof (induction pre arbitrary: s)
  case Nil
  show ?case by simp
next
  case (Cons body pre)
  show ?case
  proof (cases "handle_record env s body")
    case None
    then show ?thesis by simp
  next
    case (Some a)
    obtain f s1 where a: "a = (f, s1)" by (cases a)
    show ?thesis
    proof (cases f)
      case Next
      with Some a Cons.IH [of s1] show ?thesis by simp
    next
      case (Leave r)
      with Some a have "r \<noteq> Returned None" using handle_record_Leave by blast
      with Some a Leave show ?thesis by simp
    qed
  qed
qed


section \<open>The scenario, run\<close>

definition final0 :: state where
  "final0 =
     sent (polled ''arn:aws:ecs:task/1''
             (snd (RunFargateTask env0 (launched state0 payload0)
                     (taskCfg (launched state0 payload0)))) 2)
          (callback_request cfg0 ''{}'')"

lemma observe_env0_any:
  "observe env0 taskARN s k
     = (if (describes s + k) mod 3 = 2 then ''RUNNING'' else ''PENDING'', None)"
  by (simp add: observe_def fst_GetTaskLastStatus env0_def task0_def aws_ToString_def)

lemma poll_env0:
  assumes "describes s = 0"
  shows "poll env0 taskARN ''failed'' s = Some (Inr ''succeeded'', polled taskARN s 2)"
proof -
  have t: "terminal (observe env0 taskARN s 2)"
    using assms by (simp add: observe_env0_any terminal_def)
  have nt: "\<forall>j<2. \<not> terminal (observe env0 taskARN s j)"
    using assms by (auto simp: observe_env0_any terminal_def)
  from poll_first_terminal [OF t nt, of "''failed''"] assms show ?thesis
    by (simp add: observe_env0_any verdict_def)
qed

lemma ADOCallback_env0:
  "ADOCallback env0 s config = ((''ok'', None), sent s (callback_request config ''{}''))"
  by (simp add: ADOCallback_unfold readResponse_cases env0_def)

lemma handle_record_env0:
  "handle_record env0 state0 ''message'' = Some (Next, final0)"
proof -
  let ?run = "RunFargateTask env0 (launched state0 payload0) (taskCfg (launched state0 payload0))"
  have u: "json_Unmarshal env0 ''message'' = Inr (Some payload0)"
    by (simp add: env0_def)
  have r: "fst ?run = Inr \<lparr>Tasks = [task0 ''PROVISIONING'']\<rparr>"
    by (simp add: RunFargateTask_def Let_def env0_def)
  have d: "describes (snd ?run) = 0"
    by (simp add: snd_RunFargateTask_fields launched_def state0_def)
  have a: "adoCfg (polled ''arn:aws:ecs:task/1'' (snd ?run) 2) = adoCfg state0"
    by (simp add: polled_fields snd_RunFargateTask_fields launched_def)
  show ?thesis
    by (simp add: handle_record_unfold u r Let_def task0_def aws_ToString_def
        poll_env0 [OF d] ADOCallback_env0 a final0_def cfg0_def)
qed

lemma handler_env0:
  "handler env0 state0 [''message''] = Some (Returned None, final0)"
  by (simp add: handle_record_env0)

lemma final0_fields:
  "taskCfg final0 = SetClientToken (taskCfg state0) ''abc123''"
  "adoCfg final0 = adoCfg state0"
  "runs final0 = 1" "describes final0 = 3" "posts final0 = 1"
  by (simp_all add: final0_def sent_def polled_def Let_def snd_RunFargateTask_fields
      launched_def payload0_def state0_def)

section \<open>The launch reply without a task\<close>

text \<open>
  C9. After a launch that returned no error the handler reads element 0 of the returned task
  list without a test. When the payload was decoded and the launch returned a reply with an
  empty task list, the handler panics at that read (index 0 out of range, length 0), with no
  status query and no callback made; when the list is not empty, the handler does not panic.
\<close>

theorem handler_panics_on_empty_task_list:
  "json_Unmarshal env body = Inr (Some payload)
   \<and> fst (RunFargateTask env (launched s payload) (taskCfg (launched s payload))) = Inr result
   \<longrightarrow>
     (Tasks result = [] \<longrightarrow>
        handle_record env s body
          = Some (Leave (Panicked (IndexOutOfRange 0 0)),
                  snd (RunFargateTask env (launched s payload) (taskCfg (launched s payload))))
        \<and> handler env s (body # records)
          = Some (Panicked (IndexOutOfRange 0 0),
                  snd (RunFargateTask env (launched s payload) (taskCfg (launched s payload)))))
   \<and> (Tasks result \<noteq> [] \<longrightarrow>
        (\<forall>p s'. handle_record env s body \<noteq> Some (Leave (Panicked p), s')))"
  by (auto simp: handle_record_unfold Let_def
      split: sum.splits list.splits option.splits prod.splits)

definition env_no_task :: env where
  "env_no_task = env0\<lparr>client_RunTask := \<lambda>n input. Inr \<lparr>Tasks = []\<rparr>\<rparr>"

theorem handler_panics_on_empty_task_list_witness:
  "json_Unmarshal env_no_task ''message'' = Inr (Some payload0)
   \<and> fst (RunFargateTask env_no_task (launched state0 payload0)
            (taskCfg (launched state0 payload0))) = Inr \<lparr>Tasks = []\<rparr>
   \<and> handler env_no_task state0 [''message'', ''message'']
       = Some (Panicked (IndexOutOfRange 0 0),
               snd (RunFargateTask env_no_task (launched state0 payload0)
                      (taskCfg (launched state0 payload0))))
   \<and> describes (snd (RunFargateTask env_no_task (launched state0 payload0)
                        (taskCfg (launched state0 payload0)))) = 0
   \<and> (\<forall>p s'. handle_record env0 state0 ''message'' \<noteq> Some (Leave (Panicked p), s'))"
proof -
  have u: "json_Unmarshal env_no_task ''message'' = Inr (Some payload0)"
    by (simp add: env_no_task_def env0_def)
  have r: "fst (RunFargateTask env_no_task (launched state0 payload0)
            (taskCfg (launched state0 payload0))) = Inr \<lparr>Tasks = []\<rparr>"
    by (simp add: RunFargateTask_def Let_def env_no_task_def)
  have u0: "json_Unmarshal env0 ''message'' = Inr (Some payload0)"
    by (simp add: env0_def)
  have r0: "fst (RunFargateTask env0 (launched state0 payload0)
            (taskCfg (launched state0 payload0))) = Inr \<lparr>Tasks = [task0 ''PROVISIONING'']\<rparr>"
    by (simp add: RunFargateTask_def Let_def env0_def)
  have d: "describes (snd (RunFargateTask env_no_task (launched state0 payload0)
                        (taskCfg (launched state0 payload0)))) = 0"
    by (simp add: snd_RunFargateTask_fields launched_def state0_def)
  from handler_panics_on_empty_task_list
         [of env_no_task "''message''" payload0 state0 "\<lparr>Tasks = []\<rparr>" "[''message'']"] u r
  have 1: "handler env_no_task state0 [''message'', ''message'']
       = Some (Panicked (IndexOutOfRange 0 0),
               snd (RunFargateTask env_no_task (launched state0 payload0)
                      (taskCfg (launched state0 payload0))))"
    by simp
  from handler_panics_on_empty_task_list
         [of env0 "''message''" payload0 state0 "\<lparr>Tasks = [task0 ''PROVISIONING'']\<rparr>" "[]"] u0 r0
  have 2: "\<forall>p s'. handle_record env0 state0 ''message'' \<noteq> Some (Leave (Panicked p), s')"
    by simp
  from u r 1 2 d show ?thesis by (intro conjI)
qed

section \<open>The batch\<close>

text \<open>
  C8. The handler takes the records in their order: handling \<open>pre @ rest\<close> is handling \<open>pre\<close>
  and then, when that returned no error, handling \<open>rest\<close> from the state reached. When the
  records of \<open>pre\<close> were handled without error and the next record fails at any step, the
  handler returns that record's error (or panic) in the state of the failure, whatever
  records follow: none of them is looked at. The four steps fail as follows: a body that
  does not decode returns the decoder's error in an unchanged state (no launch request, no
  call at all); a failed launch, a failed status query and a failed callback each return
  their error.
\<close>

theorem handler_stops_at_first_failure:
  "handler env s (pre @ rest) =
     (case handler env s pre of
        None \<Rightarrow> None
      | Some (r, s1) \<Rightarrow> if r = Returned None then handler env s1 rest else Some (r, s1))
   \<and> (\<forall>s1 s2 r. handler env s pre = Some (Returned None, s1)
          \<and> handle_record env s1 body = Some (Leave r, s2) \<longrightarrow>
          handler env s (pre @ body # rest) = Some (r, s2) \<and> r \<noteq> Returned None)
   \<and> (\<forall>s1 err. handler env s pre = Some (Returned None, s1)
          \<and> json_Unmarshal env body = Inl err \<longrightarrow>
          handler env s (pre @ body # rest) = Some (Returned (Some err), s1))
   \<and> (\<forall>err. json_Unmarshal env body = Inl err \<longrightarrow>
          handle_record env s body = Some (Leave (Returned (Some err)), s))
   \<and> (\<forall>payload err. json_Unmarshal env body = Inr (Some payload)
          \<and> fst (RunFargateTask env (launched s payload) (taskCfg (launched s payload))) = Inl err
          \<longrightarrow> handle_record env s body
                = Some (Leave (Returned (Some err)),
                        snd (RunFargateTask env (launched s payload) (taskCfg (launched s payload)))))
   \<and> (\<forall>payload task tasks err s3. json_Unmarshal env body = Inr (Some payload)
          \<and> fst (RunFargateTask env (launched s payload) (taskCfg (launched s payload)))
              = Inr \<lparr>Tasks = task # tasks\<rparr>
          \<and> poll env (aws_ToString (TaskArn task)) ''failed''
               (snd (RunFargateTask env (launched s payload) (taskCfg (launched s payload))))
              = Some (Inl err, s3)
          \<longrightarrow> handle_record env s body = Some (Leave (Returned (Some err)), s3))
   \<and> (\<forall>payload task tasks outcome err s3. json_Unmarshal env body = Inr (Some payload)
          \<and> fst (RunFargateTask env (launched s payload) (taskCfg (launched s payload)))
              = Inr \<lparr>Tasks = task # tasks\<rparr>
          \<and> poll env (aws_ToString (TaskArn task)) ''failed''
               (snd (RunFargateTask env (launched s payload) (taskCfg (launched s payload))))
              = Some (Inr outcome, s3)
          \<and> snd (fst (ADOCallback env s3
                         \<lparr>Config = adoCfg s3, Payload = payload, Result = outcome\<rparr>)) = Some err
          \<longrightarrow> handle_record env s body
                = Some (Leave (Returned (Some err)),
                        snd (ADOCallback env s3
                               \<lparr>Config = adoCfg s3, Payload = payload, Result = outcome\<rparr>)))"
proof -
  have A: "handler env s (pre @ rest) =
     (case handler env s pre of
        None \<Rightarrow> None
      | Some (r, s1) \<Rightarrow> if r = Returned None then handler env s1 rest else Some (r, s1))"
    by (rule handler_append)
  have B: "\<forall>s1 s2 r. handler env s pre = Some (Returned None, s1)
          \<and> handle_record env s1 body = Some (Leave r, s2) \<longrightarrow>
          handler env s (pre @ body # rest) = Some (r, s2) \<and> r \<noteq> Returned None"
    by (auto simp: handler_append [of env s pre] dest: handle_record_Leave)
  have D: "\<forall>err. json_Unmarshal env body = Inl err \<longrightarrow>
          handle_record env s' body = Some (Leave (Returned (Some err)), s')" for s'
    by (simp add: handle_record_unfold)
  have C: "\<forall>s1 err. handler env s pre = Some (Returned None, s1)
          \<and> json_Unmarshal env body = Inl err \<longrightarrow>
          handler env s (pre @ body # rest) = Some (Returned (Some err), s1)"
    using D by (auto simp: handler_append [of env s pre])
  have E: "\<forall>payload err. json_Unmarshal env body = Inr (Some payload)
          \<and> fst (RunFargateTask env (launched s payload) (taskCfg (launched s payload))) = Inl err
          \<longrightarrow> handle_record env s body
                = Some (Leave (Returned (Some err)),
                        snd (RunFargateTask env (launched s payload) (taskCfg (launched s payload))))"
    by (simp add: handle_record_unfold Let_def)
  have F: "\<forall>payload task tasks err s3. json_Unmarshal env body = Inr (Some payload)
          \<and> fst (RunFargateTask env (launched s payload) (taskCfg (launched s payload)))
              = Inr \<lparr>Tasks = task # tasks\<rparr>
          \<and> poll env (aws_ToString (TaskArn task)) ''failed''
               (snd (RunFargateTask env (launched s payload) (taskCfg (launched s payload))))
              = Some (Inl err, s3)
          \<longrightarrow> handle_record env s body = Some (Leave (Returned (Some err)), s3)"
    by (simp add: handle_record_unfold Let_def)
  have G: "\<forall>payload task tasks outcome err s3. json_Unmarshal env body = Inr (Some payload)
          \<and> fst (RunFargateTask env (launched s payload) (taskCfg (launched s payload)))
              = Inr \<lparr>Tasks = task # tasks\<rparr>
          \<and> poll env (aws_ToString (TaskArn task)) ''failed''
               (snd (RunFargateTask env (launched s payload) (taskCfg (launched s payload))))
              = Some (Inr outcome, s3)
          \<and> snd (fst (ADOCallback env s3
                         \<lparr>Config = adoCfg s3, Payload = payload, Result = outcome\<rparr>)) = Some err
          \<longrightarrow> handle_record env s body
                = Some (Leave (Returned (Some err)),
                        snd (ADOCallback env s3
                               \<lparr>Config = adoCfg s3, Payload = payload, Result = outcome\<rparr>))"
    by (simp add: handle_record_unfold Let_def)
  from A B C D [of s] E F G show ?thesis by (intro conjI)
qed

theorem handler_stops_at_first_failure_witness:
  "handler env0 state0 [''message''] = Some (Returned None, final0)
   \<and> json_Unmarshal env0 ''not json'' = Inl (LibraryError ''invalid character'')
   \<and> handler env0 state0 ([''message''] @ ''not json'' # [''message''])
       = Some (Returned (Some (LibraryError ''invalid character'')), final0)
   \<and> runs final0 = 1
   \<and> handler env0 state0 ([] @ ''not json'' # [''message''])
       = Some (Returned (Some (LibraryError ''invalid character'')), state0)
   \<and> trace state0 = []"
proof -
  have u: "json_Unmarshal env0 ''not json'' = Inl (LibraryError ''invalid character'')"
    by (simp add: env0_def)
  have e: "handler env0 state0 [] = Some (Returned None, state0)"
    by simp
  from handler_stops_at_first_failure [of env0 state0 "[''message'']" "[''message'']" "''not json''"]
       handler_env0 u
  have 1: "handler env0 state0 ([''message''] @ ''not json'' # [''message''])
       = Some (Returned (Some (LibraryError ''invalid character'')), final0)"
    by blast
  from handler_stops_at_first_failure [of env0 state0 "[]" "[''message'']" "''not json''"] e u
  have 2: "handler env0 state0 ([] @ ''not json'' # [''message''])
       = Some (Returned (Some (LibraryError ''invalid character'')), state0)"
    by blast
  have t: "trace state0 = []" by (simp add: state0_def)
  from handler_env0 u 1 2 t final0_fields(3) show ?thesis by (intro conjI)
qed

section \<open>What the handler writes to the configuration\<close>

lemma length_GenerateClientToken: "length (GenerateClientToken s) = 44"
  by (simp add: GenerateClientToken_def Let_def length_encoded_digest)

lemma SetClientToken_fields:
  "Cluster (SetClientToken c input) = Cluster c"
  "TaskDefinition (SetClientToken c input) = TaskDefinition c"
  "Subnets (SetClientToken c input) = Subnets c"
  "SecurityGroups (SetClientToken c input) = SecurityGroups c"
  "ClientToken (SetClientToken c input) = GenerateClientToken input"
  by (simp_all add: SetClientToken_def)

text \<open>
  The claim C3 as it is written fails. In the scenario the handler handles one message
  and returns no error; before, the client token of the task configuration is empty, after,
  it is the token generated from \<open>abc123\<close>, of 44 characters.
\<close>

theorem handler_changes_ClientToken:
  "handler env0 state0 [''message''] = Some (Returned None, final0)
   \<and> ClientToken (taskCfg state0) = []
   \<and> ClientToken (taskCfg final0) = GenerateClientToken ''abc123''
   \<and> length (ClientToken (taskCfg final0)) = 44
   \<and> ClientToken (taskCfg final0) \<noteq> ClientToken (taskCfg state0)"
proof -
  have a: "ClientToken (taskCfg state0) = []" by (simp add: state0_def)
  have b: "ClientToken (taskCfg final0) = GenerateClientToken ''abc123''"
    by (simp add: final0_fields SetClientToken_fields)
  have c: "length (ClientToken (taskCfg final0)) = 44"
    by (simp add: b length_GenerateClientToken)
  from a c have d: "ClientToken (taskCfg final0) \<noteq> ClientToken (taskCfg state0)" by auto
  from handler_env0 a b c d show ?thesis by (intro conjI)
qed

lemma handle_record_config:
  assumes "handle_record env s body = Some (f, s')"
  shows "adoCfg s' = adoCfg s
       \<and> Cluster (taskCfg s') = Cluster (taskCfg s)
       \<and> TaskDefinition (taskCfg s') = TaskDefinition (taskCfg s)
       \<and> Subnets (taskCfg s') = Subnets (taskCfg s)
       \<and> SecurityGroups (taskCfg s') = SecurityGroups (taskCfg s)
       \<and> (\<forall>payload. json_Unmarshal env body = Inr (Some payload) \<longrightarrow>
             ClientToken (taskCfg s') = GenerateClientToken (AuthToken payload))
       \<and> ((\<forall>payload. json_Unmarshal env body \<noteq> Inr (Some payload)) \<longrightarrow> s' = s)"
  using handle_record_frame [OF assms] by (auto simp: SetClientToken_fields)

lemma handler_config:
  "handler env s records = Some (r, s') \<Longrightarrow>
     adoCfg s' = adoCfg s
     \<and> Cluster (taskCfg s') = Cluster (taskCfg s)
     \<and> TaskDefinition (taskCfg s') = TaskDefinition (taskCfg s)
     \<and> Subnets (taskCfg s') = Subnets (taskCfg s)
     \<and> SecurityGroups (taskCfg s') = SecurityGroups (taskCfg s)
     \<and> (ClientToken (taskCfg s') = ClientToken (taskCfg s)
        \<or> (\<exists>body payload. body \<in> set records \<and> json_Unmarshal env body = Inr (Some payload)
              \<and> ClientToken (taskCfg s') = GenerateClientToken (AuthToken payload)))"
proof (induction records arbitrary: s)
  case Nil
  then show ?case by simp
next
  case (Cons body records)
  from Cons.prems obtain f s1 where h: "handle_record env s body = Some (f, s1)"
    by (auto split: option.splits)
  note c = handle_record_config [OF h]
  have tok: "ClientToken (taskCfg s1) = ClientToken (taskCfg s)
        \<or> (\<exists>payload. json_Unmarshal env body = Inr (Some payload)
              \<and> ClientToken (taskCfg s1) = GenerateClientToken (AuthToken payload))"
    using c by (cases "\<exists>payload. json_Unmarshal env body = Inr (Some payload)") auto
  show ?case
  proof (cases f)
    case (Leave r')
    with h Cons.prems have "s' = s1" by simp
    with c tok show ?thesis by auto
  next
    case Next
    with h Cons.prems have "handler env s1 records = Some (r, s')" by simp
    from Cons.IH [OF this] c tok show ?thesis by auto
  qed
qed

text \<open>
  C3, as the code has it. Handling a message writes one field of the process-wide
  configuration, the client token of the task configuration: when the body decodes to a
  payload, the field is set to the token generated from the payload's \<open>AuthToken\<close>, and
  otherwise nothing is written. Every other field of the task configuration and every field
  of the ADO configuration has the same value after the message, and after the batch, as
  before.
\<close>

theorem handler_writes_only_ClientToken:
  "(handle_record env s body = Some (f, s') \<longrightarrow>
       adoCfg s' = adoCfg s
       \<and> Cluster (taskCfg s') = Cluster (taskCfg s)
       \<and> TaskDefinition (taskCfg s') = TaskDefinition (taskCfg s)
       \<and> Subnets (taskCfg s') = Subnets (taskCfg s)
       \<and> SecurityGroups (taskCfg s') = SecurityGroups (taskCfg s)
       \<and> (\<forall>payload. json_Unmarshal env body = Inr (Some payload) \<longrightarrow>
             ClientToken (taskCfg s') = GenerateClientToken (AuthToken payload))
       \<and> ((\<forall>payload. json_Unmarshal env body \<noteq> Inr (Some payload)) \<longrightarrow> s' = s))
   \<and> (handler env s records = Some (r, s'') \<longrightarrow>
       adoCfg s'' = adoCfg s
       \<and> Cluster (taskCfg s'') = Cluster (taskCfg s)
       \<and> TaskDefinition (taskCfg s'') = TaskDefinition (taskCfg s)
       \<and> Subnets (taskCfg s'') = Subnets (taskCfg s)
       \<and> SecurityGroups (taskCfg s'') = SecurityGroups (taskCfg s)
       \<and> (ClientToken (taskCfg s'') = ClientToken (taskCfg s)
          \<or> (\<exists>body payload. body \<in> set records \<and> json_Unmarshal env body = Inr (Some payload)
                \<and> ClientToken (taskCfg s'') = GenerateClientToken (AuthToken payload))))"
  using handle_record_config [of env s body f s'] handler_config [of env s records r s'']
  by blast

theorem handler_writes_only_ClientToken_witness:
  "handle_record env0 state0 ''message'' = Some (Next, final0)
   \<and> handler env0 state0 [''message''] = Some (Returned None, final0)
   \<and> json_Unmarshal env0 ''message'' = Inr (Some payload0)
   \<and> adoCfg final0 = adoCfg state0
   \<and> Cluster (taskCfg final0) = Cluster (taskCfg state0)
   \<and> TaskDefinition (taskCfg final0) = TaskDefinition (taskCfg state0)
   \<and> Subnets (taskCfg final0) = Subnets (taskCfg state0)
   \<and> SecurityGroups (taskCfg final0) = SecurityGroups (taskCfg state0)
   \<and> ClientToken (taskCfg final0) = GenerateClientToken (AuthToken payload0)"
proof -
  have u: "json_Unmarshal env0 ''message'' = Inr (Some payload0)"
    by (simp add: env0_def)
  from handler_writes_only_ClientToken
         [of env0 state0 "''message''" Next final0 "[''message'']" "Returned None" final0]
       handle_record_env0 handler_env0 u
  show ?thesis by blast
qed

section \<open>Process start\<close>

definition getenv0 :: "string \<Rightarrow> string" where
  "getenv0 name =
     (if name = ''ECS_CLUSTER'' then ''cluster''
      else if name = ''ECS_TASK_DEFINITION'' then ''agent:1''
      else if name = ''SUBNET_IDS'' then ''subnet-1,subnet-2''
      else if name = ''SECURITY_GROUP_IDS'' then ''sg-1''
      else if name = ''ADO_ORG'' then ''myorg''
      else [])"

lemma ADOConfig_ReadFromEnv_nil:
  "ADOConfig_ReadFromEnv getenv None
     = (if getenv ''ADO_ORG'' = [] then Exited 1 else Panics NilDereference)"
  by (simp add: ADOConfig_ReadFromEnv_def ReadRequiredEnvVar_def andThen_def store_def Let_def)

lemma andThen_Done:
  "andThen m f = Done y \<longleftrightarrow> (\<exists>x. m = Done x \<and> f x = Done y)"
  by (cases m) (simp_all add: andThen_def)

lemma ECSTaskConfig_ReadFromEnv_getenv0:
  "ECSTaskConfig_ReadFromEnv getenv0 (Some new_ECSTaskConfig)
     = Done (Some \<lparr>Cluster = ''cluster'', TaskDefinition = ''agent:1'', ClientToken = [],
                   Subnets = [''subnet-1'', ''subnet-2''], SecurityGroups = [''sg-1'']\<rparr>)"
  by (simp add: ECSTaskConfig_ReadFromEnv_def ReadRequiredEnvVar_def andThen_def store_def
      Let_def getenv0_def new_ECSTaskConfig_def)

lemma ADOConfig_ReadFromEnv_getenv0:
  "ADOConfig_ReadFromEnv getenv0 (Some new_ADOConfig)
     = Done (Some \<lparr>Instance = ''dev.azure.com/myorg'', APIVersion = ''7.1-preview.3'',
                   AuthUsername = ''ado-callback''\<rparr>)"
  by (simp add: ADOConfig_ReadFromEnv_def ReadRequiredEnvVar_def ReadEnvVarWithDefault_def
      andThen_def store_def Let_def getenv0_def new_ADOConfig_def)

text \<open>
  C2, on the code. \<^verbatim>\<open>init\<close> calls \<^verbatim>\<open>adoCfg.ReadFromEnv()\<close> while \<^verbatim>\<open>adoCfg\<close> is still nil, and
  assigns \<^verbatim>\<open>new(ADOConfig)\<close> to it afterwards. So \<^const>\<open>init\<close> never completes: with the
  organisation unset the process exits with status 1, and with every required variable set
  the first store through the nil receiver panics. Called on an allocated struct, as the
  task configuration is, the same method reads the environment into it.
\<close>

theorem init_never_completes:
  "init getenv loadDefaultConfig package_vars \<noteq> Done g
   \<and> init getenv0 None package_vars = Panics NilDereference
   \<and> ADOConfig_ReadFromEnv getenv0 (Some new_ADOConfig)
       = Done (Some \<lparr>Instance = ''dev.azure.com/myorg'', APIVersion = ''7.1-preview.3'',
                     AuthUsername = ''ado-callback''\<rparr>)"
proof -
  have 1: "init getenv loadDefaultConfig package_vars \<noteq> Done g"
    by (auto simp: init_def Let_def package_vars_def andThen_Done ADOConfig_ReadFromEnv_nil)
  have 2: "init getenv0 None package_vars = Panics NilDereference"
    by (simp add: init_def Let_def package_vars_def ECSTaskConfig_ReadFromEnv_getenv0
        ADOConfig_ReadFromEnv_nil andThen_def)
       (simp add: getenv0_def)
  from 1 2 ADOConfig_ReadFromEnv_getenv0 show ?thesis by (intro conjI)
qed

end
